theory Spec2Isabelle
  imports Main
begin

section \<open>Python values of the tool-error notebook\<close>

text \<open>
  The notebook \<^verbatim>\<open>src/unnamed/part_001\<close> (How to handle tool errors) defines a tool,
  three wrappers around it and two chains with fallbacks. Exceptions are values: every
  function that can raise returns \<open>exn + 'a\<close>, with \<open>Inl\<close> for the exception raised.
\<close>

subsection \<open>Floats: IEEE 754 binary64\<close>

text \<open>
  A Python float is a double. \<open>Finite sg m e\<close> is \<open>(-1)^sg * m * 2^e\<close> in the form
  where \<open>m < 2^53\<close>, \<open>-1074 \<le> e \<le> 971\<close>, and \<open>2^52 \<le> m\<close> unless \<open>e = -1074\<close>
  (subnormals and the two zeros). Arithmetic rounds to nearest, ties to even.
\<close>

datatype pyfloat = Finite bool nat int | Infinity bool | NaN

fun bitlen :: "nat \<Rightarrow> nat" where
  "bitlen n = (if n = 0 then 0 else Suc (bitlen (n div 2)))"

declare bitlen.simps [simp del]

definition round_half_even :: "nat \<Rightarrow> nat \<Rightarrow> nat" where
  "round_half_even m k =
     (let q = m div 2 ^ k; r = m mod 2 ^ k
      in if 2 ^ k < 2 * r \<or> (2 * r = 2 ^ k \<and> odd q) then q + 1 else q)"

definition fl_round :: "bool \<Rightarrow> nat \<Rightarrow> int \<Rightarrow> pyfloat" where
  "fl_round sg m e =
     (if m = 0 then Finite sg 0 (- 1074)
      else
        let q = max (e + int (bitlen m) - 53) (- 1074);
            m' = (if q \<le> e then m * 2 ^ nat (e - q) else round_half_even m (nat (q - e)))
        in if m' = 2 ^ 53 then (if 971 < q + 1 then Infinity sg else Finite sg (2 ^ 52) (q + 1))
           else if 971 < q then Infinity sg
           else Finite sg m' q)"

fun fl_mul :: "pyfloat \<Rightarrow> pyfloat \<Rightarrow> pyfloat" where
  "fl_mul (Finite s1 m1 e1) (Finite s2 m2 e2) = fl_round (s1 \<noteq> s2) (m1 * m2) (e1 + e2)"
| "fl_mul NaN _ = NaN"
| "fl_mul _ NaN = NaN"
| "fl_mul (Infinity s1) (Infinity s2) = Infinity (s1 \<noteq> s2)"
| "fl_mul (Infinity s1) (Finite s2 m e) = (if m = 0 then NaN else Infinity (s1 \<noteq> s2))"
| "fl_mul (Finite s1 m e) (Infinity s2) = (if m = 0 then NaN else Infinity (s1 \<noteq> s2))"

text \<open>The literals of the notebook: \<^verbatim>\<open>2.1\<close> is the double nearest to 21/10, \<^verbatim>\<open>10.5\<close> is 21/2.\<close>

definition float_2_1 :: pyfloat where
  "float_2_1 = Finite False 4728779608739021 (- 51)"

definition float_10_5 :: pyfloat where
  "float_10_5 = Finite False 5910974510923776 (- 49)"

subsection \<open>Values, tool calls, exceptions, messages\<close>

text \<open>
  Tool arguments are what the model sends as JSON: a dict is an association list in
  insertion order with distinct keys, read with \<open>map_of\<close>. A \<^verbatim>\<open>ToolCall\<close> is a dict with the keys
  \<^verbatim>\<open>name\<close>, \<^verbatim>\<open>args\<close> and \<^verbatim>\<open>id\<close>.
\<close>

datatype pyval =
    PNone
  | PInt int
  | PFloat pyfloat
  | PStr string
  | PDict "(string \<times> pyval) list"

type_synonym tool_call = "(string \<times> pyval) list"

text \<open>
  An exception object is its class and what \<^verbatim>\<open>str()\<close> of it does: return a string or
  raise in turn (a class whose \<^verbatim>\<open>__str__\<close> fails). \<^verbatim>\<open>CustomToolException\<close> is the class
  the notebook defines, with its two attributes.
\<close>

datatype exn =
    PyError string "exn + string"
  | CustomToolException (tool_call: tool_call) (exception: exn)

definition KeyError :: "string \<Rightarrow> exn" where
  "KeyError k = PyError ''KeyError'' (Inr ([CHR 0x27] @ k @ [CHR 0x27]))"

definition IndexError :: exn where
  "IndexError = PyError ''IndexError'' (Inr ''list index out of range'')"

definition AttributeError :: "string \<Rightarrow> exn" where
  "AttributeError a = PyError ''AttributeError'' (Inr (''object has no attribute '' @ a))"

definition TypeError :: "string \<Rightarrow> exn" where
  "TypeError msg = PyError ''TypeError'' (Inr msg)"

definition OverflowError :: exn where
  "OverflowError = PyError ''OverflowError'' (Inr ''int too large to convert to float'')"

definition ValidationError :: "string \<Rightarrow> exn" where
  "ValidationError msg = PyError ''pydantic_core._pydantic_core.ValidationError'' (Inr msg)"

text \<open>
  \<^verbatim>\<open>str(e)\<close> and \<^verbatim>\<open>type(e)\<close> as an f-string prints them. \<^verbatim>\<open>CustomToolException.__init__\<close>
  calls \<^verbatim>\<open>super().__init__()\<close> with no argument, so its \<^verbatim>\<open>str()\<close> is empty.
\<close>

fun exn_str :: "exn \<Rightarrow> exn + string" where
  "exn_str (PyError cls s) = s"
| "exn_str (CustomToolException tc e) = Inr ''''"

fun type_repr :: "exn \<Rightarrow> string" where
  "type_repr (PyError cls s) = ''<class '' @ [CHR 0x27] @ cls @ [CHR 0x27] @ ''>''"
| "type_repr (CustomToolException tc e) =
     ''<class '' @ [CHR 0x27] @ ''__main__.CustomToolException'' @ [CHR 0x27] @ ''>''"

datatype message =
    HumanMessage string
  | AIMessage string "tool_call list"
  | ToolMessage pyval string

section \<open>The tool\<close>

text \<open>
  \<^verbatim>\<open>int_arg * float_arg\<close> with an int and a float: the int is converted to a double
  (\<^verbatim>\<open>OverflowError\<close> when it is too large), then the doubles are multiplied.
\<close>

definition int_to_float :: "int \<Rightarrow> exn + pyfloat" where
  "int_to_float i =
     (case fl_round (i < 0) (nat \<bar>i\<bar>) 0 of
        Infinity sg \<Rightarrow> Inl OverflowError
      | f \<Rightarrow> Inr f)"

definition complex_tool :: "int \<Rightarrow> pyfloat \<Rightarrow> (string \<times> pyval) list \<Rightarrow> exn + pyval" where
  "complex_tool int_arg float_arg dict_arg =
     (case int_to_float int_arg of
        Inl e \<Rightarrow> Inl e
      | Inr f \<Rightarrow> Inr (PFloat (fl_mul f float_arg)))"

text \<open>
  Modelled from the spec: \<^verbatim>\<open>complex_tool.invoke\<close> is \<^verbatim>\<open>BaseTool.invoke\<close> of langchain_core,
  which validates the arguments against the schema of the function's signature before it
  calls the function; it is not under src/. By section 4.1 an Operation fails when
  required fields are missing or a type does not match; the scenario of section 8 names
  the error \<^verbatim>\<open>ValidationError("c missing")\<close>, and the output recorded in the notebook
  for the call without \<^verbatim>\<open>dict_arg\<close> is a pydantic \<^verbatim>\<open>ValidationError\<close> that names the
  field as missing. Each of the three fields is checked in the order of the signature,
  every problem is reported in one \<^verbatim>\<open>ValidationError\<close>, and a value of another type is a
  mismatch (no conversion between types is modelled).
\<close>

fun field_problem :: "string \<Rightarrow> (pyval \<Rightarrow> bool) \<Rightarrow> (string \<times> pyval) list \<Rightarrow> string list" where
  "field_problem name ok args =
     (case map_of args name of
        None \<Rightarrow> [name @ '' missing'']
      | Some v \<Rightarrow> (if ok v then [] else [name @ '' type mismatch'']))"

fun is_int :: "pyval \<Rightarrow> bool" where
  "is_int (PInt i) = True"
| "is_int _ = False"

fun is_float :: "pyval \<Rightarrow> bool" where
  "is_float (PFloat f) = True"
| "is_float _ = False"

fun is_dict :: "pyval \<Rightarrow> bool" where
  "is_dict (PDict d) = True"
| "is_dict _ = False"

fun join_lines :: "string list \<Rightarrow> string" where
  "join_lines [] = ''''"
| "join_lines [l] = l"
| "join_lines (l # ls) = l @ [CHR 0x0A] @ join_lines ls"

fun complex_tool_invoke :: "pyval \<Rightarrow> exn + pyval" where
  "complex_tool_invoke (PDict args) =
     (case (map_of args ''int_arg'', map_of args ''float_arg'', map_of args ''dict_arg'') of
        (Some (PInt i), Some (PFloat f), Some (PDict d)) \<Rightarrow> complex_tool i f d
      | _ \<Rightarrow>
          Inl (ValidationError
                 (join_lines (field_problem ''int_arg'' is_int args
                              @ field_problem ''float_arg'' is_float args
                              @ field_problem ''dict_arg'' is_dict args))))"
| "complex_tool_invoke _ = Inl (ValidationError ''tool input is not a dict'')"

section \<open>Try/except tool call\<close>

text \<open>
  The f-string of the handler of \<^verbatim>\<open>try_except_tool\<close>, the Error Translator of the spec:
  \<^verbatim>\<open>f"Calling tool with arguments:\n\n{tool_args}\n\nraised the following error:\n\n{type(e)}: {e}"\<close>.
  Its first argument is the text Python prints for \<^verbatim>\<open>tool_args\<close>; \<^verbatim>\<open>{e}\<close> calls
  \<^verbatim>\<open>str(e)\<close>, and an exception raised there leaves the f-string.
\<close>

definition translate :: "string \<Rightarrow> exn \<Rightarrow> exn + string" where
  "translate tool_args e =
     (case exn_str e of
        Inl e' \<Rightarrow> Inl e'
      | Inr s \<Rightarrow>
          Inr (''Calling tool with arguments:'' @ [CHR 0x0A, CHR 0x0A] @ tool_args
               @ [CHR 0x0A, CHR 0x0A] @ ''raised the following error:'' @ [CHR 0x0A, CHR 0x0A]
               @ type_repr e @ '': '' @ s))"

text \<open>
  \<^verbatim>\<open>try_except_tool\<close>: the \<^verbatim>\<open>try\<close> body calls the tool and drops what it returns, and
  the function has no \<^verbatim>\<open>return\<close> on that path, so it returns \<^verbatim>\<open>None\<close> (\<open>Inr None\<close>) there.
  \<open>repr\<close> is Python's printing of the argument dict; \<^verbatim>\<open>config\<close> carries callbacks only.
\<close>

definition try_except_tool :: "(pyval \<Rightarrow> string) \<Rightarrow> pyval \<Rightarrow> exn + string option" where
  "try_except_tool repr tool_args =
     (case complex_tool_invoke tool_args of
        Inr v \<Rightarrow> Inr None
      | Inl e \<Rightarrow>
          (case translate (repr tool_args) e of
             Inl e' \<Rightarrow> Inl e'
           | Inr s \<Rightarrow> Inr (Some s)))"

section \<open>Fallbacks\<close>

text \<open>
  \<^verbatim>\<open>chain = llm_with_tools | (lambda msg: msg.tool_calls[0]["args"]) | complex_tool\<close>:
  a sequence hands the output of a step to the next one and stops at the first exception.
  The chat model is outside the repository: \<open>llm\<close> is a parameter, with a state \<open>'x\<close> of
  its own, since two calls with one prompt need not answer alike.
\<close>

fun first_tool_call_args :: "message \<Rightarrow> exn + pyval" where
  "first_tool_call_args (AIMessage content []) = Inl IndexError"
| "first_tool_call_args (AIMessage content (tc # tcs)) =
     (case map_of tc ''args'' of
        None \<Rightarrow> Inl (KeyError ''args'')
      | Some args \<Rightarrow> Inr args)"
| "first_tool_call_args _ = Inl (AttributeError ''tool_calls'')"

definition tool_chain ::
  "(string \<Rightarrow> 'x \<Rightarrow> (exn + message) \<times> 'x) \<Rightarrow> string \<Rightarrow> 'x \<Rightarrow> (exn + pyval) \<times> 'x" where
  "tool_chain llm input x =
     (case llm input x of
        (Inl e, x') \<Rightarrow> (Inl e, x')
      | (Inr msg, x') \<Rightarrow>
          (case first_tool_call_args msg of
             Inl e \<Rightarrow> (Inl e, x')
           | Inr args \<Rightarrow> (complex_tool_invoke args, x')))"

text \<open>
  Modelled from the spec: \<^verbatim>\<open>with_fallbacks\<close> builds a \<^verbatim>\<open>RunnableWithFallbacks\<close> of
  langchain_core, whose \<^verbatim>\<open>invoke\<close> is not under src/. Section 4.3: the primary runs first;
  when it fails the fallbacks are tried strictly in order, each with the original request;
  the first success is the result; when all fail the error surfaced is the last
  fallback's. The notebook also passes \<^verbatim>\<open>exception_key="exception"\<close>, and its fallback
  reads the failure back with \<^verbatim>\<open>inputs.pop("exception")\<close>: when a key is given, the error of
  the step that just failed is stored in the input under that key before the next
  fallback runs. \<open>exception_key\<close> is that item assignment, or \<open>None\<close>.
  A runnable takes its input and the state and returns its outcome and the new state.
\<close>

fun run_fallbacks ::
  "('req \<Rightarrow> 's \<Rightarrow> (exn + 'res) \<times> 's) list \<Rightarrow> (exn \<Rightarrow> 'req \<Rightarrow> 's \<Rightarrow> 's) option
     \<Rightarrow> exn \<Rightarrow> 'req \<Rightarrow> 's \<Rightarrow> (exn + 'res) \<times> 's" where
  "run_fallbacks [] exception_key last_error input s = (Inl last_error, s)"
| "run_fallbacks (f # fs) exception_key last_error input s =
     (let s1 = (case exception_key of
                  None \<Rightarrow> s
                | Some setitem \<Rightarrow> setitem last_error input s)
      in case f input s1 of
           (Inr output, s2) \<Rightarrow> (Inr output, s2)
         | (Inl e, s2) \<Rightarrow> run_fallbacks fs exception_key e input s2)"

definition with_fallbacks ::
  "('req \<Rightarrow> 's \<Rightarrow> (exn + 'res) \<times> 's) \<Rightarrow> ('req \<Rightarrow> 's \<Rightarrow> (exn + 'res) \<times> 's) list
     \<Rightarrow> (exn \<Rightarrow> 'req \<Rightarrow> 's \<Rightarrow> 's) option \<Rightarrow> 'req \<Rightarrow> 's \<Rightarrow> (exn + 'res) \<times> 's" where
  "with_fallbacks runnable fallbacks exception_key input s =
     (case runnable input s of
        (Inr output, s1) \<Rightarrow> (Inr output, s1)
      | (Inl e, s1) \<Rightarrow> run_fallbacks fallbacks exception_key e input s1)"

text \<open>
  The Fallback Chain of section 4.3, \<^verbatim>\<open>run_with_fallbacks(primary, fallbacks, request)\<close>:
  fallbacks with no exception key, as in \<^verbatim>\<open>chain.with_fallbacks([better_chain])\<close>.
\<close>

definition run_with_fallbacks ::
  "('req \<Rightarrow> 's \<Rightarrow> (exn + 'res) \<times> 's) \<Rightarrow> ('req \<Rightarrow> 's \<Rightarrow> (exn + 'res) \<times> 's) list
     \<Rightarrow> 'req \<Rightarrow> 's \<Rightarrow> (exn + 'res) \<times> 's" where
  "run_with_fallbacks primary fallbacks request s = with_fallbacks primary fallbacks None request s"

definition chain_with_fallback ::
  "(string \<Rightarrow> 'x \<Rightarrow> (exn + message) \<times> 'x) \<Rightarrow> (string \<Rightarrow> 'x \<Rightarrow> (exn + message) \<times> 'x)
     \<Rightarrow> string \<Rightarrow> 'x \<Rightarrow> (exn + pyval) \<times> 'x" where
  "chain_with_fallback llm better_model input x =
     run_with_fallbacks (tool_chain llm) [tool_chain better_model] input x"

text \<open>
  Observers for the theorems about which runnable is invoked and with what: \<open>recording f\<close>
  is \<open>f\<close> that also appends the input it receives to a log kept beside the state;
  \<open>unrecorded f\<close> is \<open>f\<close> beside a log it does not touch.
\<close>

fun recording ::
  "('req \<Rightarrow> 's \<Rightarrow> (exn + 'res) \<times> 's) \<Rightarrow> 'req \<Rightarrow> 's \<times> 'req list \<Rightarrow> (exn + 'res) \<times> ('s \<times> 'req list)" where
  "recording f input (s, log) = (case f input s of (r, s') \<Rightarrow> (r, (s', log @ [input])))"

fun unrecorded ::
  "('req \<Rightarrow> 's \<Rightarrow> (exn + 'res) \<times> 's) \<Rightarrow> 'req \<Rightarrow> 's \<times> 'req list \<Rightarrow> (exn + 'res) \<times> ('s \<times> 'req list)" where
  "unrecorded f input (s, log) = (case f input s of (r, s') \<Rightarrow> (r, (s', log)))"

section \<open>Retry with exception\<close>

text \<open>
  The input of the retrying chain is a dict, which \<^verbatim>\<open>exception_to_messages\<close> updates in
  place: dicts live in a store, and an input is the address of one. An entry holds the
  user's text, an exception, or a list of messages.
\<close>

datatype inval = VStr string | VExc exn | VMsgs "message list"

type_synonym pydict = "string \<Rightarrow> inval option"

type_synonym heap = "nat \<Rightarrow> pydict"

text \<open>
  \<^verbatim>\<open>tool_custom_exception\<close>: the handler evaluates \<^verbatim>\<open>msg.tool_calls[0]\<close> again, so with no
  tool call the \<^verbatim>\<open>IndexError\<close> of the \<^verbatim>\<open>try\<close> body is raised a second time by the handler
  itself and leaves the function unwrapped.
\<close>

fun tool_custom_exception :: "message \<Rightarrow> exn + pyval" where
  "tool_custom_exception (AIMessage content []) = Inl IndexError"
| "tool_custom_exception (AIMessage content (tc # tcs)) =
     (case map_of tc ''args'' of
        None \<Rightarrow> Inl (CustomToolException tc (KeyError ''args''))
      | Some args \<Rightarrow>
          (case complex_tool_invoke args of
             Inl e \<Rightarrow> Inl (CustomToolException tc e)
           | Inr v \<Rightarrow> Inr v))"
| "tool_custom_exception _ = Inl (AttributeError ''tool_calls'')"

text \<open>
  Modelled from the spec: the constructors of the message classes are langchain_core's
  and not under src/. Section 3 has a FailureContext hold the failed request and the
  error description, and section 4.4 names missing identifiers as what keeps it from
  being constructed: \<^verbatim>\<open>AIMessage(content, tool_calls)\<close> takes tool calls that carry an
  \<^verbatim>\<open>id\<close> and raises \<^verbatim>\<open>TypeError\<close> otherwise; \<^verbatim>\<open>ToolMessage(tool_call_id, content)\<close> takes an id
  that is a string and raises \<^verbatim>\<open>ValidationError\<close> otherwise. What they accept they store.
\<close>

definition new_AIMessage :: "string \<Rightarrow> tool_call list \<Rightarrow> exn + message" where
  "new_AIMessage content tool_calls =
     (if list_all (\<lambda>tc. map_of tc ''id'' \<noteq> None) tool_calls
      then Inr (AIMessage content tool_calls)
      else Inl (TypeError ''missing required keyword-only argument id''))"

fun new_ToolMessage :: "pyval \<Rightarrow> string \<Rightarrow> exn + message" where
  "new_ToolMessage (PStr tool_call_id) content = Inr (ToolMessage (PStr tool_call_id) content)"
| "new_ToolMessage _ content = Inl (ValidationError ''tool_call_id'')"

text \<open>
  The list \<^verbatim>\<open>messages\<close> of \<^verbatim>\<open>exception_to_messages\<close>, built from the popped entry, in the
  order Python evaluates it: \<^verbatim>\<open>exception.tool_call\<close> needs a \<^verbatim>\<open>CustomToolException\<close>; the
  \<^verbatim>\<open>AIMessage\<close> is constructed; \<^verbatim>\<open>exception.tool_call["id"]\<close> needs the key;
  \<^verbatim>\<open>str(exception.exception)\<close> is evaluated; the \<^verbatim>\<open>ToolMessage\<close> is constructed.
\<close>

fun messages :: "inval \<Rightarrow> exn + message list" where
  "messages (VExc (CustomToolException tc e)) =
     (case new_AIMessage [] [tc] of
        Inl e' \<Rightarrow> Inl e'
      | Inr ai_message \<Rightarrow>
          (case map_of tc ''id'' of
             None \<Rightarrow> Inl (KeyError ''id'')
           | Some tool_call_id \<Rightarrow>
               (case exn_str e of
                  Inl e' \<Rightarrow> Inl e'
                | Inr content \<Rightarrow>
                    (case new_ToolMessage tool_call_id content of
                       Inl e' \<Rightarrow> Inl e'
                     | Inr tool_message \<Rightarrow>
                         Inr [ai_message,
                              tool_message,
                              HumanMessage ''The last tool call raised an exception. Try calling the tool again with corrected arguments. Do not repeat mistakes.'']))))"
| "messages _ = Inl (AttributeError ''tool_call'')"

definition exception_to_messages :: "nat \<Rightarrow> heap \<Rightarrow> (exn + nat) \<times> heap" where
  "exception_to_messages inputs h =
     (case h inputs ''exception'' of
        None \<Rightarrow> (Inl (KeyError ''exception''), h)
      | Some exc \<Rightarrow>
          (let h1 = h(inputs := (h inputs)(''exception'' := None))
           in case messages exc of
                Inl e \<Rightarrow> (Inl e, h1)
              | Inr ms \<Rightarrow> (Inr inputs, h1(inputs := (h1 inputs)(''last_output'' \<mapsto> VMsgs ms)))))"

text \<open>
  \<^verbatim>\<open>chain = prompt | llm_with_tools | tool_custom_exception\<close>. The prompt template and the
  chat model are outside the repository: \<open>model\<close> stands for \<^verbatim>\<open>prompt | llm_with_tools\<close>,
  a function of the contents of the input dict (\<^verbatim>\<open>input\<close>, and \<^verbatim>\<open>last_output\<close> when it
  is there) and of a state \<open>'x\<close> of its own. The state of the chain is the store and \<open>'x\<close>.
\<close>

fun chain ::
  "(pydict \<Rightarrow> 'x \<Rightarrow> (exn + message) \<times> 'x) \<Rightarrow> nat \<Rightarrow> heap \<times> 'x \<Rightarrow> (exn + pyval) \<times> (heap \<times> 'x)" where
  "chain model inputs (h, x) =
     (case model (h inputs) x of
        (Inl e, x') \<Rightarrow> (Inl e, (h, x'))
      | (Inr msg, x') \<Rightarrow> (tool_custom_exception msg, (h, x')))"

text \<open>The fallback \<^verbatim>\<open>exception_to_messages | chain\<close>.\<close>

fun exception_to_messages_chain ::
  "(pydict \<Rightarrow> 'x \<Rightarrow> (exn + message) \<times> 'x) \<Rightarrow> nat \<Rightarrow> heap \<times> 'x \<Rightarrow> (exn + pyval) \<times> (heap \<times> 'x)" where
  "exception_to_messages_chain model inputs (h, x) =
     (case exception_to_messages inputs h of
        (Inl e, h') \<Rightarrow> (Inl e, (h', x))
      | (Inr inputs', h') \<Rightarrow> chain model inputs' (h', x))"

text \<open>
  Modelled from the spec: how \<^verbatim>\<open>exception_key\<close> hands the failure to the fallback is
  part of \<^verbatim>\<open>RunnableWithFallbacks.invoke\<close>, not under src/. Section 4.4 has the request
  augmented with what failed, and \<^verbatim>\<open>exception_to_messages\<close> finds the exception in the
  dict it is given: the error is stored in the input dict by item assignment,
  \<^verbatim>\<open>input[exception_key] = last_error\<close>.
\<close>

fun setitem_exception :: "string \<Rightarrow> exn \<Rightarrow> nat \<Rightarrow> heap \<times> 'x \<Rightarrow> heap \<times> 'x" where
  "setitem_exception key e inputs (h, x) = (h(inputs := (h inputs)(key \<mapsto> VExc e)), x)"

definition self_correcting_chain ::
  "(pydict \<Rightarrow> 'x \<Rightarrow> (exn + message) \<times> 'x) \<Rightarrow> nat \<Rightarrow> heap \<times> 'x \<Rightarrow> (exn + pyval) \<times> (heap \<times> 'x)" where
  "self_correcting_chain model inputs s =
     with_fallbacks (chain model) [exception_to_messages_chain model]
       (Some (setitem_exception ''exception'')) inputs s"

text \<open>
  Observers of the model: \<open>counting model\<close> also counts its invocations;
  \<open>deterministic f\<close> answers by a function of the dict alone and has no state.
\<close>

fun counting ::
  "(pydict \<Rightarrow> 'x \<Rightarrow> (exn + message) \<times> 'x) \<Rightarrow> pydict \<Rightarrow> 'x \<times> nat \<Rightarrow> (exn + message) \<times> ('x \<times> nat)" where
  "counting model d (x, n) = (case model d x of (r, x') \<Rightarrow> (r, (x', Suc n)))"

definition deterministic :: "(pydict \<Rightarrow> exn + message) \<Rightarrow> pydict \<Rightarrow> 'x \<Rightarrow> (exn + message) \<times> 'x" where
  "deterministic f d x = (f d, x)"

section \<open>Example inputs\<close>

text \<open>
  The scenario of the notebook: the model is asked to call the tool with 5, 2.1 and an
  empty dict, forgets \<^verbatim>\<open>dict_arg\<close>, and sends it when it is asked again.
\<close>

definition example_args_missing :: pyval where
  "example_args_missing = PDict [(''int_arg'', PInt 5), (''float_arg'', PFloat float_2_1)]"

definition example_args_complete :: pyval where
  "example_args_complete =
     PDict [(''int_arg'', PInt 5), (''float_arg'', PFloat float_2_1), (''dict_arg'', PDict [])]"

definition call_missing :: tool_call where
  "call_missing =
     [(''name'', PStr ''complex_tool''), (''args'', example_args_missing), (''id'', PStr ''call_1'')]"

definition call_complete :: tool_call where
  "call_complete =
     [(''name'', PStr ''complex_tool''), (''args'', example_args_complete), (''id'', PStr ''call_2'')]"

definition llm_no_tool_call :: "string \<Rightarrow> unit \<Rightarrow> (exn + message) \<times> unit" where
  "llm_no_tool_call input x = (Inr (AIMessage [] []), x)"

definition llm_forgets_dict_arg :: "string \<Rightarrow> unit \<Rightarrow> (exn + message) \<times> unit" where
  "llm_forgets_dict_arg input x = (Inr (AIMessage [] [call_missing]), x)"

definition llm_complete :: "string \<Rightarrow> unit \<Rightarrow> (exn + message) \<times> unit" where
  "llm_complete input x = (Inr (AIMessage [] [call_complete]), x)"

definition example_inputs :: pydict where
  "example_inputs = [''input'' \<mapsto> VStr ''use complex tool'']"

definition example_heap :: heap where
  "example_heap a = (if a = 0 then example_inputs else Map.empty)"

definition example_heap_other :: heap where
  "example_heap_other a = (if a = 1 then example_inputs else Map.empty)"

definition example_failure :: exn where
  "example_failure = CustomToolException call_missing (ValidationError ''dict_arg missing'')"

definition example_heap_failed :: heap where
  "example_heap_failed a =
     (if a = 0 then example_inputs(''exception'' \<mapsto> VExc example_failure) else Map.empty)"

definition model_forgets_dict_arg :: "pydict \<Rightarrow> unit \<Rightarrow> (exn + message) \<times> unit" where
  "model_forgets_dict_arg d x = (Inr (AIMessage [] [call_missing]), x)"

definition answer_corrects_itself :: "pydict \<Rightarrow> exn + message" where
  "answer_corrects_itself d =
     (case d ''last_output'' of
        None \<Rightarrow> Inr (AIMessage [] [call_missing])
      | Some ms \<Rightarrow> Inr (AIMessage [] [call_complete]))"

text \<open>
  A model that forgets \<^verbatim>\<open>dict_arg\<close> again when it is shown its first failure and sends it
  only when it is shown its second one.
\<close>

definition call_missing_again :: tool_call where
  "call_missing_again =
     [(''name'', PStr ''complex_tool''), (''args'', example_args_missing), (''id'', PStr ''call_3'')]"

definition example_failure_again :: exn where
  "example_failure_again =
     CustomToolException call_missing_again (ValidationError ''dict_arg missing'')"

fun answer_after :: "message list \<Rightarrow> exn + message" where
  "answer_after [ai_message, ToolMessage (PStr tool_call_id) content, human_message] =
     (if tool_call_id = ''call_1'' then Inr (AIMessage [] [call_missing_again])
      else Inr (AIMessage [] [call_complete]))"
| "answer_after ms = Inr (AIMessage [] [call_complete])"

definition answer_corrects_late :: "pydict \<Rightarrow> exn + message" where
  "answer_corrects_late d =
     (case d ''last_output'' of
        None \<Rightarrow> Inr (AIMessage [] [call_missing])
      | Some (VMsgs ms) \<Rightarrow> answer_after ms
      | Some v \<Rightarrow> Inr (AIMessage [] [call_complete]))"

definition example_heap_retried :: heap where
  "example_heap_retried =
     example_heap(0 := (example_heap 0)(''exception'' := None,
       ''last_output'' \<mapsto>
         VMsgs [AIMessage [] [call_missing], ToolMessage (PStr ''call_1'') ''dict_arg missing'',
                HumanMessage ''The last tool call raised an exception. Try calling the tool again with corrected arguments. Do not repeat mistakes.'']))"

text \<open>An exception of a class whose \<^verbatim>\<open>__str__\<close> raises.\<close>

definition broken_error :: exn where
  "broken_error = PyError ''BrokenError'' (Inl IndexError)"

section \<open>Properties\<close>

subsection \<open>Evaluating the examples\<close>

lemma invoke_missing:
  "complex_tool_invoke example_args_missing = Inl (ValidationError ''dict_arg missing'')"
  by (simp add: example_args_missing_def)

lemma invoke_complete: "complex_tool_invoke example_args_complete = Inr (PFloat float_10_5)"
  by (simp add: example_args_complete_def complex_tool_def int_to_float_def fl_round_def
        round_half_even_def bitlen.simps float_2_1_def float_10_5_def Let_def)

lemma tool_chain_no_tool_call: "tool_chain llm_no_tool_call input x = (Inl IndexError, x)"
  by (simp add: tool_chain_def llm_no_tool_call_def)

lemma tool_chain_forgets:
  "tool_chain llm_forgets_dict_arg input x = (Inl (ValidationError ''dict_arg missing''), x)"
  by (simp add: tool_chain_def llm_forgets_dict_arg_def call_missing_def invoke_missing)

lemma tool_chain_complete: "tool_chain llm_complete input x = (Inr (PFloat float_10_5), x)"
  by (simp add: tool_chain_def llm_complete_def call_complete_def invoke_complete)

lemma messages_example:
  "messages (VExc example_failure) =
     Inr [AIMessage [] [call_missing], ToolMessage (PStr ''call_1'') ''dict_arg missing'',
          HumanMessage ''The last tool call raised an exception. Try calling the tool again with corrected arguments. Do not repeat mistakes.'']"
  by (simp add: example_failure_def call_missing_def ValidationError_def new_AIMessage_def)

lemma messages_example_again:
  "messages (VExc example_failure_again) =
     Inr [AIMessage [] [call_missing_again], ToolMessage (PStr ''call_3'') ''dict_arg missing'',
          HumanMessage ''The last tool call raised an exception. Try calling the tool again with corrected arguments. Do not repeat mistakes.'']"
  by (simp add: example_failure_again_def call_missing_again_def ValidationError_def
        new_AIMessage_def)

lemma chain_forgets:
  "chain model_forgets_dict_arg inputs (h, x) = (Inl example_failure, (h, x))"
  by (simp add: model_forgets_dict_arg_def call_missing_def invoke_missing example_failure_def)

lemma chain_counting_forgets:
  "chain (counting model_forgets_dict_arg) inputs (h, x, n) = (Inl example_failure, (h, x, Suc n))"
  by (simp add: model_forgets_dict_arg_def call_missing_def invoke_missing example_failure_def)

subsection \<open>The steps of the retrying chain\<close>

lemma self_correcting_chain_eq:
  "self_correcting_chain model inputs s =
     (case chain model inputs s of
        (Inr output, s1) \<Rightarrow> (Inr output, s1)
      | (Inl e, s1) \<Rightarrow>
          (case exception_to_messages_chain model inputs
                  (setitem_exception ''exception'' e inputs s1) of
             (Inr output, s2) \<Rightarrow> (Inr output, s2)
           | (Inl e2, s2) \<Rightarrow> (Inl e2, s2)))"
  by (simp add: self_correcting_chain_def with_fallbacks_def split: prod.splits sum.splits)

lemma self_correcting_chain_retry:
  "chain model inputs s = (Inl e, s') \<Longrightarrow>
   fst (self_correcting_chain model inputs s)
     = fst (exception_to_messages_chain model inputs (setitem_exception ''exception'' e inputs s'))"
  by (auto simp add: self_correcting_chain_eq
        simp del: chain.simps exception_to_messages_chain.simps setitem_exception.simps
        split: prod.splits sum.splits)

lemma chain_counting:
  "snd (snd (snd (chain (counting model) inputs (h, x, n)))) = Suc n"
  by (simp split: prod.splits sum.splits)

lemma exception_to_messages_chain_counting:
  "snd (snd (snd (exception_to_messages_chain (counting model) inputs (h, x, n)))) \<le> Suc n"
  using chain_counting [of model _ _ x n]
  by (simp del: chain.simps split: prod.splits sum.splits)

lemma exception_to_messages_stored:
  "messages (VExc e) = Inr ms \<Longrightarrow>
   exception_to_messages inputs (h(inputs := (h inputs)(''exception'' \<mapsto> VExc e)))
     = (Inr inputs, h(inputs := (h inputs)(''exception'' := None, ''last_output'' \<mapsto> VMsgs ms)))"
  by (simp add: exception_to_messages_def Let_def)

lemma exception_to_messages_stored_fails:
  "messages (VExc e) = Inl e2 \<Longrightarrow>
   exception_to_messages inputs (h(inputs := (h inputs)(''exception'' \<mapsto> VExc e)))
     = (Inl e2, h(inputs := (h inputs)(''exception'' := None)))"
  by (simp add: exception_to_messages_def Let_def)

lemma chain_deterministic:
  "chain (deterministic f) inputs (h, x) =
     ((case f (h inputs) of Inl e \<Rightarrow> Inl e | Inr msg \<Rightarrow> tool_custom_exception msg), (h, x))"
  by (simp add: deterministic_def split: sum.splits)

lemma retry_deterministic_eq:
  "fst (exception_to_messages_chain (deterministic f) inputs
          (setitem_exception ''exception'' e inputs (h, x)))
     = (case messages (VExc e) of
          Inl e2 \<Rightarrow> Inl e2
        | Inr ms \<Rightarrow>
            (case f ((h inputs)(''exception'' := None, ''last_output'' \<mapsto> VMsgs ms)) of
               Inl e3 \<Rightarrow> Inl e3
             | Inr msg \<Rightarrow> tool_custom_exception msg))"
proof (cases "messages (VExc e)")
  case (Inl e2)
  then show ?thesis
    by (simp add: exception_to_messages_stored_fails del: chain.simps)
next
  case (Inr ms)
  then show ?thesis
    by (simp add: exception_to_messages_stored chain_deterministic del: chain.simps)
qed

subsection \<open>Evaluating the example models\<close>

lemma chain_late_first:
  "chain (deterministic answer_corrects_late) 0 (example_heap, x)
     = (Inl example_failure, (example_heap, x))"
  by (simp add: chain_deterministic answer_corrects_late_def example_heap_def example_inputs_def
        call_missing_def invoke_missing example_failure_def del: chain.simps)

lemma late_retried_dict:
  "answer_corrects_late (example_heap_retried 0) = Inr (AIMessage [] [call_missing_again])"
  by (simp add: example_heap_retried_def answer_corrects_late_def)

lemma chain_late_second:
  "chain (deterministic answer_corrects_late) 0 (example_heap_retried, x)
     = (Inl example_failure_again, (example_heap_retried, x))"
  by (simp add: chain_deterministic late_retried_dict call_missing_again_def invoke_missing
        example_failure_again_def del: chain.simps)

lemma retry_late_first:
  "exception_to_messages_chain (deterministic answer_corrects_late) 0
     (setitem_exception ''exception'' example_failure 0 (example_heap, x))
   = (Inl example_failure_again, (example_heap_retried, x))"
proof -
  have "exception_to_messages 0
          (example_heap(0 := (example_heap 0)(''exception'' \<mapsto> VExc example_failure)))
        = (Inr 0, example_heap_retried)"
    unfolding example_heap_retried_def
    by (rule exception_to_messages_stored [OF messages_example])
  then show ?thesis
    by (simp add: chain_late_second del: chain.simps)
qed

lemma retry_late_second:
  "fst (exception_to_messages_chain (deterministic answer_corrects_late) 0
          (setitem_exception ''exception'' example_failure_again 0 (example_heap_retried, x)))
   = Inr (PFloat float_10_5)"
  by (simp add: retry_deterministic_eq messages_example_again answer_corrects_late_def
        call_complete_def invoke_complete
        del: exception_to_messages_chain.simps setitem_exception.simps)

lemma scenario_itself:
  "fst (self_correcting_chain (deterministic answer_corrects_itself) 0 (example_heap, ()))
     = Inr (PFloat float_10_5)"
proof -
  have "chain (deterministic answer_corrects_itself) 0 (example_heap, ())
          = (Inl example_failure, (example_heap, ()))"
    by (simp add: chain_deterministic answer_corrects_itself_def example_heap_def
          example_inputs_def call_missing_def invoke_missing example_failure_def del: chain.simps)
  from self_correcting_chain_retry [OF this] show ?thesis
    by (simp add: retry_deterministic_eq messages_example answer_corrects_itself_def
          call_complete_def invoke_complete
          del: exception_to_messages_chain.simps setitem_exception.simps)
qed

subsection \<open>The fallback chain\<close>

lemma run_fallbacks_all_fail:
  assumes "\<forall>f\<in>set fs. \<forall>s. \<exists>e s'. f req s = (Inl e, s')" and "fs \<noteq> []"
  shows "\<exists>e s0 s'. run_fallbacks fs None e0 req s = (Inl e, s') \<and> last fs req s0 = (Inl e, s')"
  using assms
proof (induction fs arbitrary: e0 s)
  case Nil
  then show ?case by simp
next
  case (Cons f fs)
  from Cons.prems obtain e s2 where f: "f req s = (Inl e, s2)"
    by (meson list.set_intros(1))
  show ?case
  proof (cases "fs = []")
    case True
    with f show ?thesis by auto
  next
    case False
    from Cons.prems have "\<forall>g\<in>set fs. \<forall>s. \<exists>e s'. g req s = (Inl e, s')" by simp
    from Cons.IH [OF this False, of e s2] f False show ?thesis by simp
  qed
qed

text \<open>
  C1: when the primary and every fallback of a non-empty chain fail on the request
  (whatever the state they run in), \<open>run_with_fallbacks\<close> fails, and the error it returns
  is the one the last fallback raised on that request; the errors of the primary and of
  the earlier fallbacks are dropped.
\<close>

theorem run_with_fallbacks_last_error:
  assumes "\<forall>s. \<exists>e s'. primary request s = (Inl e, s')"
      and "\<forall>f\<in>set fallbacks. \<forall>s. \<exists>e s'. f request s = (Inl e, s')"
      and "fallbacks \<noteq> []"
  shows "\<exists>e s0 s'. run_with_fallbacks primary fallbacks request s = (Inl e, s')
            \<and> last fallbacks request s0 = (Inl e, s')"
proof -
  from assms(1) obtain e1 s1 where p: "primary request s = (Inl e1, s1)" by blast
  from run_fallbacks_all_fail [OF assms(2) assms(3), of e1 s1] p
  show ?thesis by (simp add: run_with_fallbacks_def with_fallbacks_def)
qed

text \<open>
  At \<^verbatim>\<open>chain.with_fallbacks([better_chain])\<close> with a model that sends no tool call and a
  better model that forgets \<^verbatim>\<open>dict_arg\<close>: the \<^verbatim>\<open>IndexError\<close> of the primary is dropped and
  the \<^verbatim>\<open>ValidationError\<close> of the fallback is raised.
\<close>

theorem run_with_fallbacks_last_error_witness:
  "chain_with_fallback llm_no_tool_call llm_forgets_dict_arg ''use complex tool'' ()
     = (Inl (ValidationError ''dict_arg missing''), ())"
proof -
  have "\<exists>e s0 s'. run_with_fallbacks (tool_chain llm_no_tool_call) [tool_chain llm_forgets_dict_arg]
                     ''use complex tool'' () = (Inl e, s')
            \<and> last [tool_chain llm_forgets_dict_arg] ''use complex tool'' s0 = (Inl e, s')"
    by (rule run_with_fallbacks_last_error)
       (simp_all add: tool_chain_no_tool_call tool_chain_forgets)
  then show ?thesis
    by (auto simp: chain_with_fallback_def tool_chain_forgets)
qed





text \<open>
  C4: when the primary succeeds on the request, \<open>run_with_fallbacks\<close> returns the primary's
  result and the state the primary left, whatever the fallbacks are; with fallbacks that
  record their invocations the log stays empty: no fallback is run.
\<close>

theorem run_with_fallbacks_primary_success:
  assumes "primary request s = (Inr result, s')"
  shows "run_with_fallbacks primary fallbacks request s = (Inr result, s') \<and>
         run_with_fallbacks (unrecorded primary) (map recording fallbacks) request (s, [])
           = (Inr result, (s', []))"
  using assms by (simp add: run_with_fallbacks_def with_fallbacks_def)

text \<open>At \<^verbatim>\<open>chain.with_fallbacks([better_chain])\<close> with a model that sends all three arguments.\<close>

theorem run_with_fallbacks_primary_success_witness:
  "chain_with_fallback llm_complete llm_no_tool_call ''use complex tool'' ()
     = (Inr (PFloat float_10_5), ()) \<and>
   run_with_fallbacks (unrecorded (tool_chain llm_complete))
       (map recording [tool_chain llm_no_tool_call]) ''use complex tool'' ((), [])
     = (Inr (PFloat float_10_5), ((), []))"
  using run_with_fallbacks_primary_success
          [of "tool_chain llm_complete" "''use complex tool''" "()" "PFloat float_10_5" "()"
              "[tool_chain llm_no_tool_call]"]
  by (simp add: tool_chain_complete chain_with_fallback_def)

subsection \<open>Retry with exception\<close>

text \<open>
  C2, as the code has it: \<^verbatim>\<open>self_correcting_chain\<close> has one fallback, so its bound is
  two attempts and there is no \<^verbatim>\<open>max_attempts\<close> to set. Every invocation of \<^verbatim>\<open>chain\<close>
  invokes the model once; with a model that counts its invocations the count grows by at
  most two. When the first attempt fails and the retry fails too, the chain fails with an
  error that one of its two attempts raised, as that attempt raised it: nothing wraps it
  in an \<^verbatim>\<open>ExhaustedError\<close>. Which of the two errors it is, is the library's choice and is
  not stated here.
\<close>

theorem self_correcting_chain_two_attempts:
  "snd (snd (snd (self_correcting_chain (counting model) inputs (h, x, n)))) \<le> n + 2 \<and>
   (chain model inputs s = (Inl first_error, s') \<longrightarrow>
    exception_to_messages_chain model inputs (setitem_exception ''exception'' first_error inputs s')
      = (Inl last_error, s'') \<longrightarrow>
    (fst (self_correcting_chain model inputs s) = Inl first_error \<or>
     fst (self_correcting_chain model inputs s) = Inl last_error))"
proof
  obtain r1 h1 x1 n1 where c: "chain (counting model) inputs (h, x, n) = (r1, h1, x1, n1)"
    by (metis prod.collapse)
  with chain_counting [of model inputs h x n] have n1: "n1 = Suc n" by simp
  show "snd (snd (snd (self_correcting_chain (counting model) inputs (h, x, n)))) \<le> n + 2"
  proof (cases r1)
    case (Inr v)
    with c n1 show ?thesis by (simp add: self_correcting_chain_eq del: chain.simps)
  next
    case (Inl e)
    have "snd (snd (snd (exception_to_messages_chain (counting model) inputs
             (h1(inputs := (h1 inputs)(''exception'' \<mapsto> VExc e)), x1, n1)))) \<le> Suc n1"
      by (rule exception_to_messages_chain_counting)
    with Inl c n1 show ?thesis
      by (auto simp add: self_correcting_chain_eq
            simp del: chain.simps exception_to_messages_chain.simps
            split: prod.splits sum.splits)
  qed
next
  show "chain model inputs s = (Inl first_error, s') \<longrightarrow>
    exception_to_messages_chain model inputs (setitem_exception ''exception'' first_error inputs s')
      = (Inl last_error, s'') \<longrightarrow>
    (fst (self_correcting_chain model inputs s) = Inl first_error \<or>
     fst (self_correcting_chain model inputs s) = Inl last_error)"
    by (simp add: self_correcting_chain_eq)
qed

text \<open>
  With a model whose two attempts fail with different errors (the tool calls have
  different ids): two invocations, and the chain fails with one of the two.
\<close>

theorem self_correcting_chain_two_attempts_witness:
  "snd (snd (snd (self_correcting_chain (counting (deterministic answer_corrects_late)) 0
                    (example_heap, (), 0)))) \<le> 0 + 2 \<and>
   fst (chain (deterministic answer_corrects_late) 0 (example_heap, ())) = Inl example_failure \<and>
   example_failure \<noteq> example_failure_again \<and>
   (fst (self_correcting_chain (deterministic answer_corrects_late) 0 (example_heap, ()))
      = Inl example_failure \<or>
    fst (self_correcting_chain (deterministic answer_corrects_late) 0 (example_heap, ()))
      = Inl example_failure_again)"
proof -
  have c1: "chain (deterministic answer_corrects_late) 0 (example_heap, ())
              = (Inl example_failure, (example_heap, ()))"
    by (rule chain_late_first)
  have c2: "exception_to_messages_chain (deterministic answer_corrects_late) 0
              (setitem_exception ''exception'' example_failure 0 (example_heap, ()))
            = (Inl example_failure_again, (example_heap_retried, ()))"
    by (rule retry_late_first)
  from c1 have f1: "fst (chain (deterministic answer_corrects_late) 0 (example_heap, ()))
                      = Inl example_failure"
    by simp
  have ne: "example_failure \<noteq> example_failure_again"
    by (simp add: example_failure_def example_failure_again_def call_missing_def
          call_missing_again_def)
  from self_correcting_chain_two_attempts
         [where model = "deterministic answer_corrects_late" and inputs = 0 and h = example_heap
            and x = "()" and n = 0 and s = "(example_heap, ())" and first_error = example_failure
            and s' = "(example_heap, ())" and last_error = example_failure_again
            and s'' = "(example_heap_retried, ())"]
       c1 c2 ne f1
  show ?thesis by blast
qed

text \<open>
  Against C2 as stated: the model forgets \<^verbatim>\<open>dict_arg\<close> in both attempts, with the same
  tool call; the model is invoked twice and the error that ends the chain is the
  \<^verbatim>\<open>CustomToolException\<close> the attempts raised, not an \<^verbatim>\<open>ExhaustedError\<close> carrying it.
\<close>

theorem self_correcting_chain_error_not_wrapped:
  "self_correcting_chain (counting model_forgets_dict_arg) 0 (example_heap, (), 0)
     = (Inl example_failure,
        (example_heap(0 := (example_heap 0)(''exception'' := None,
           ''last_output'' \<mapsto>
             VMsgs [AIMessage [] [call_missing], ToolMessage (PStr ''call_1'') ''dict_arg missing'',
                    HumanMessage ''The last tool call raised an exception. Try calling the tool again with corrected arguments. Do not repeat mistakes.''])),
         (), 2)) \<and>
   type_repr example_failure
     = ''<class '' @ [CHR 0x27] @ ''__main__.CustomToolException'' @ [CHR 0x27] @ ''>''"
proof -
  have "type_repr example_failure
          = ''<class '' @ [CHR 0x27] @ ''__main__.CustomToolException'' @ [CHR 0x27] @ ''>''"
    by (simp add: example_failure_def)
  then show ?thesis
    by (simp add: self_correcting_chain_eq chain_counting_forgets
          exception_to_messages_stored [OF messages_example] del: chain.simps)
qed

text \<open>
  C6: the tool invoked with \<^verbatim>\<open>{int_arg: 5, float_arg: 2.1}\<close> fails with a
  \<^verbatim>\<open>ValidationError\<close> that names \<^verbatim>\<open>dict_arg\<close> as missing, and so does the first attempt of the
  chain when the model sends these arguments. When the model, called again with the
  failure appended to the input as \<^verbatim>\<open>last_output\<close>, sends
  \<^verbatim>\<open>{int_arg: 5, float_arg: 2.1, dict_arg: {}}\<close>, the tool returns 5 * 2.1 = 10.5 and
  \<^verbatim>\<open>self_correcting_chain\<close> ends with that result after its two attempts.
\<close>

theorem self_correcting_chain_scenario:
  assumes "model (h inputs) x = (Inr (AIMessage c (tc # tcs)), x')"
      and "map_of tc ''args'' = Some example_args_missing"
      and "messages (VExc (CustomToolException tc (ValidationError ''dict_arg missing''))) = Inr ms"
      and "model ((h inputs)(''exception'' := None, ''last_output'' \<mapsto> VMsgs ms)) x'
             = (Inr (AIMessage c' (tc' # tcs')), x'')"
      and "map_of tc' ''args'' = Some example_args_complete"
  shows "complex_tool_invoke example_args_missing = Inl (ValidationError ''dict_arg missing'') \<and>
         fst (chain model inputs (h, x))
           = Inl (CustomToolException tc (ValidationError ''dict_arg missing'')) \<and>
         complex_tool 5 float_2_1 [] = Inr (PFloat float_10_5) \<and>
         fst (self_correcting_chain model inputs (h, x)) = Inr (PFloat float_10_5)"
proof -
  have first: "chain model inputs (h, x)
                 = (Inl (CustomToolException tc (ValidationError ''dict_arg missing'')), (h, x'))"
    using assms(1,2) by (simp add: invoke_missing)
  have stored: "exception_to_messages inputs
                  (h(inputs := (h inputs)(''exception'' \<mapsto>
                      VExc (CustomToolException tc (ValidationError ''dict_arg missing'')))))
                = (Inr inputs,
                   h(inputs := (h inputs)(''exception'' := None, ''last_output'' \<mapsto> VMsgs ms)))"
    using assms(3) by (rule exception_to_messages_stored)
  have second: "exception_to_messages_chain model inputs
                  (setitem_exception ''exception''
                     (CustomToolException tc (ValidationError ''dict_arg missing'')) inputs (h, x'))
                = (Inr (PFloat float_10_5),
                   (h(inputs := (h inputs)(''exception'' := None, ''last_output'' \<mapsto> VMsgs ms)),
                    x''))"
    using assms(4,5) by (simp add: stored invoke_complete)
  have tool: "complex_tool 5 float_2_1 [] = Inr (PFloat float_10_5)"
    using invoke_complete by (simp add: example_args_complete_def)
  from first second tool show ?thesis
    by (simp add: self_correcting_chain_eq invoke_missing
          del: chain.simps exception_to_messages_chain.simps)
qed

text \<open>With a model that sends \<^verbatim>\<open>dict_arg\<close> once \<^verbatim>\<open>last_output\<close> is in its input.\<close>

theorem self_correcting_chain_scenario_witness:
  "complex_tool_invoke example_args_missing = Inl (ValidationError ''dict_arg missing'') \<and>
   fst (chain (deterministic answer_corrects_itself) 0 (example_heap, ())) = Inl example_failure \<and>
   complex_tool 5 float_2_1 [] = Inr (PFloat float_10_5) \<and>
   fst (self_correcting_chain (deterministic answer_corrects_itself) 0 (example_heap, ()))
     = Inr (PFloat float_10_5)"
proof -
  have a: "deterministic answer_corrects_itself (example_heap 0) ()
             = (Inr (AIMessage [] (call_missing # [])), ())"
    by (simp add: deterministic_def answer_corrects_itself_def example_heap_def example_inputs_def)
  have b: "map_of call_missing ''args'' = Some example_args_missing"
    by (simp add: call_missing_def)
  have c: "messages (VExc (CustomToolException call_missing (ValidationError ''dict_arg missing'')))
      = Inr [AIMessage [] [call_missing], ToolMessage (PStr ''call_1'') ''dict_arg missing'',
             HumanMessage ''The last tool call raised an exception. Try calling the tool again with corrected arguments. Do not repeat mistakes.'']"
    using messages_example by (simp add: example_failure_def)
  have d: "deterministic answer_corrects_itself
             ((example_heap 0)(''exception'' := None, ''last_output'' \<mapsto>
                VMsgs [AIMessage [] [call_missing], ToolMessage (PStr ''call_1'') ''dict_arg missing'',
                       HumanMessage ''The last tool call raised an exception. Try calling the tool again with corrected arguments. Do not repeat mistakes.''])) ()
      = (Inr (AIMessage [] (call_complete # [])), ())"
    by (simp add: deterministic_def answer_corrects_itself_def)
  have e: "map_of call_complete ''args'' = Some example_args_complete"
    by (simp add: call_complete_def)
  from self_correcting_chain_scenario
         [where model = "deterministic answer_corrects_itself" and h = example_heap and inputs = 0
            and x = "()" and tc = call_missing, OF a b c d e]
  show ?thesis
    by (simp add: example_failure_def del: chain.simps)
qed

text \<open>
  C9, as the code has it: with a model that answers by a function of the input dict
  alone, the outcome of \<^verbatim>\<open>self_correcting_chain\<close> (the result, or the error it fails with)
  is determined by the contents of the request dict: two invocations on dicts with the
  same contents end alike, whatever the rest of the store and wherever the dicts are.
  And when an invocation succeeds, a second invocation on the same dict, as the first has
  left it, returns the same result. A retry updates the dict in place, so after an
  invocation that failed the dict is not the request it was, and nothing is said of a
  second invocation on it.
\<close>

theorem self_correcting_chain_same_request:
  "(h inputs = h' inputs' \<longrightarrow>
      fst (self_correcting_chain (deterministic f) inputs (h, x))
        = fst (self_correcting_chain (deterministic f) inputs' (h', x'))) \<and>
   (self_correcting_chain (deterministic f) inputs (h, x) = (Inr result, after) \<longrightarrow>
      fst (self_correcting_chain (deterministic f) inputs after) = Inr result)"
proof (intro conjI impI)
  assume eq: "h inputs = h' inputs'"
  let ?r = "case f (h inputs) of Inl e \<Rightarrow> Inl e | Inr msg \<Rightarrow> tool_custom_exception msg"
  have c: "chain (deterministic f) inputs (h, x) = (?r, (h, x))"
    by (rule chain_deterministic)
  have c': "chain (deterministic f) inputs' (h', x') = (?r, (h', x'))"
    using eq by (simp add: chain_deterministic del: chain.simps)
  show "fst (self_correcting_chain (deterministic f) inputs (h, x))
          = fst (self_correcting_chain (deterministic f) inputs' (h', x'))"
  proof (cases ?r)
    case (Inr v)
    with c c' show ?thesis by (simp add: self_correcting_chain_eq del: chain.simps)
  next
    case (Inl e)
    have "fst (exception_to_messages_chain (deterministic f) inputs
                 (setitem_exception ''exception'' e inputs (h, x)))
        = fst (exception_to_messages_chain (deterministic f) inputs'
                 (setitem_exception ''exception'' e inputs' (h', x')))"
      unfolding retry_deterministic_eq eq by (rule refl)
    moreover from Inl c have "chain (deterministic f) inputs (h, x) = (Inl e, (h, x))" by simp
    moreover from Inl c' have "chain (deterministic f) inputs' (h', x') = (Inl e, (h', x'))" by simp
    ultimately show ?thesis
      by (simp only: self_correcting_chain_retry)
  qed
next
  assume run: "self_correcting_chain (deterministic f) inputs (h, x) = (Inr result, after)"
  let ?r = "case f (h inputs) of Inl e \<Rightarrow> Inl e | Inr msg \<Rightarrow> tool_custom_exception msg"
  have c: "chain (deterministic f) inputs (h, x) = (?r, (h, x))"
    by (rule chain_deterministic)
  show "fst (self_correcting_chain (deterministic f) inputs after) = Inr result"
  proof (cases ?r)
    case (Inr v)
    with c have "self_correcting_chain (deterministic f) inputs (h, x) = (Inr v, (h, x))"
      by (simp add: self_correcting_chain_eq del: chain.simps)
    with run show ?thesis by simp
  next
    case first: (Inl e)
    with c have c1: "chain (deterministic f) inputs (h, x) = (Inl e, (h, x))" by simp
    show ?thesis
    proof (cases "messages (VExc e)")
      case (Inl e2)
      then have "exception_to_messages_chain (deterministic f) inputs
                   (setitem_exception ''exception'' e inputs (h, x))
                 = (Inl e2, (h(inputs := (h inputs)(''exception'' := None)), x))"
        by (simp add: exception_to_messages_stored_fails del: chain.simps)
      with c1 have "fst (self_correcting_chain (deterministic f) inputs (h, x)) = Inl e2"
        by (simp add: self_correcting_chain_eq del: chain.simps exception_to_messages_chain.simps
              setitem_exception.simps)
      with run show ?thesis by simp
    next
      case (Inr ms)
      let ?h1 = "h(inputs := (h inputs)(''exception'' := None, ''last_output'' \<mapsto> VMsgs ms))"
      let ?r1 = "case f (?h1 inputs) of Inl e \<Rightarrow> Inl e | Inr msg \<Rightarrow> tool_custom_exception msg"
      have c2: "chain (deterministic f) inputs (?h1, x) = (?r1, (?h1, x))"
        by (rule chain_deterministic)
      have "exception_to_messages_chain (deterministic f) inputs
              (setitem_exception ''exception'' e inputs (h, x))
            = chain (deterministic f) inputs (?h1, x)"
        using Inr by (simp add: exception_to_messages_stored del: chain.simps)
      with c2 have retry: "exception_to_messages_chain (deterministic f) inputs
              (setitem_exception ''exception'' e inputs (h, x)) = (?r1, (?h1, x))"
        by simp
      from c1 retry have "self_correcting_chain (deterministic f) inputs (h, x) = (?r1, (?h1, x))"
        by (simp add: self_correcting_chain_eq del: chain.simps exception_to_messages_chain.simps
              setitem_exception.simps split: sum.splits)
      with run have r1: "?r1 = Inr result" and after: "after = (?h1, x)" by simp_all
      from c2 r1 have "chain (deterministic f) inputs (?h1, x) = (Inr result, (?h1, x))" by simp
      then have "self_correcting_chain (deterministic f) inputs (?h1, x) = (Inr result, (?h1, x))"
        by (simp add: self_correcting_chain_eq del: chain.simps)
      with after show ?thesis by simp
    qed
  qed
qed

text \<open>
  Two stores that hold the same request at different addresses; and the scenario, where
  the retry succeeds and a second invocation on the updated dict returns 10.5 again.
\<close>

theorem self_correcting_chain_same_request_witness:
  "example_heap 0 = example_heap_other 1 \<and>
   fst (self_correcting_chain (deterministic answer_corrects_itself) 0 (example_heap, ()))
     = fst (self_correcting_chain (deterministic answer_corrects_itself) 1 (example_heap_other, True)) \<and>
   fst (self_correcting_chain (deterministic answer_corrects_itself) 0 (example_heap, ()))
     = Inr (PFloat float_10_5) \<and>
   fst (self_correcting_chain (deterministic answer_corrects_itself) 0
          (snd (self_correcting_chain (deterministic answer_corrects_itself) 0 (example_heap, ()))))
     = Inr (PFloat float_10_5)"
proof -
  have same: "example_heap 0 = example_heap_other 1"
    by (simp add: example_heap_def example_heap_other_def)
  obtain after where run:
    "self_correcting_chain (deterministic answer_corrects_itself) 0 (example_heap, ())
       = (Inr (PFloat float_10_5), after)"
    using scenario_itself
    by (cases "self_correcting_chain (deterministic answer_corrects_itself) 0 (example_heap, ())")
       auto
  from self_correcting_chain_same_request
         [where h = example_heap and inputs = 0 and h' = example_heap_other and inputs' = 1
            and f = answer_corrects_itself and x = "()" and x' = True
            and result = "PFloat float_10_5" and after = after]
       same run
  have a: "fst (self_correcting_chain (deterministic answer_corrects_itself) 0 (example_heap, ()))
             = fst (self_correcting_chain (deterministic answer_corrects_itself) 1
                      (example_heap_other, True))"
    and b: "fst (self_correcting_chain (deterministic answer_corrects_itself) 0 after)
              = Inr (PFloat float_10_5)"
    by blast+
  from run have c: "snd (self_correcting_chain (deterministic answer_corrects_itself) 0
                           (example_heap, ())) = after"
    by simp
  from same a b c scenario_itself show ?thesis by simp
qed

text \<open>
  Against C9 as stated: one deterministic model, one request dict, two invocations. The
  first fails after its retry, which has left \<^verbatim>\<open>last_output\<close> in the dict; the second, on
  the same dict, succeeds with 10.5.
\<close>

theorem self_correcting_chain_not_idempotent:
  "isl (fst (self_correcting_chain (deterministic answer_corrects_late) 0 (example_heap, ()))) \<and>
   fst (self_correcting_chain (deterministic answer_corrects_late) 0
          (snd (self_correcting_chain (deterministic answer_corrects_late) 0 (example_heap, ()))))
     = Inr (PFloat float_10_5)"
proof -
  have first: "self_correcting_chain (deterministic answer_corrects_late) 0 (example_heap, ())
                 = (Inl example_failure_again, (example_heap_retried, ()))"
    by (simp add: self_correcting_chain_eq chain_late_first retry_late_first
          del: chain.simps exception_to_messages_chain.simps setitem_exception.simps)
  have second: "fst (self_correcting_chain (deterministic answer_corrects_late) 0
                       (example_heap_retried, ())) = Inr (PFloat float_10_5)"
    by (simp only: self_correcting_chain_retry [OF chain_late_second] retry_late_second)
  from first second show ?thesis by simp
qed

text \<open>
  C7, as the code has it: \<^verbatim>\<open>exception_to_messages\<close> updates the dict it is given in place.
  When it returns, it returns the address it was given; the dict at that address has lost
  its \<^verbatim>\<open>exception\<close> entry and holds the messages under \<^verbatim>\<open>last_output\<close>; its other entries
  and every other dict of the store are as before.
\<close>

theorem exception_to_messages_updates_in_place:
  assumes "exception_to_messages inputs h = (Inr out, h')"
  shows "\<exists>exc ms. h inputs ''exception'' = Some exc \<and> messages exc = Inr ms \<and> out = inputs \<and>
           h' = h(inputs := (h inputs)(''exception'' := None, ''last_output'' \<mapsto> VMsgs ms))"
  using assms
  by (auto simp: exception_to_messages_def Let_def split: option.splits sum.splits)

text \<open>At the dict the retry is given after the first attempt of the scenario has failed.\<close>

theorem exception_to_messages_updates_in_place_witness:
  "\<exists>exc ms. example_heap_failed 0 ''exception'' = Some exc \<and> messages exc = Inr ms \<and>
      snd (exception_to_messages 0 example_heap_failed)
        = example_heap_failed(0 := (example_heap_failed 0)(''exception'' := None,
                                       ''last_output'' \<mapsto> VMsgs ms))"
proof -
  have a: "example_heap_failed 0 ''exception'' = Some (VExc example_failure)"
    by (simp add: example_heap_failed_def)
  have "fst (exception_to_messages 0 example_heap_failed) = Inr 0"
    by (simp add: exception_to_messages_def a messages_example Let_def)
  then have "exception_to_messages 0 example_heap_failed
               = (Inr 0, snd (exception_to_messages 0 example_heap_failed))"
    by (metis prod.collapse)
  from exception_to_messages_updates_in_place [OF this] show ?thesis by blast
qed

text \<open>
  Against C7 as stated: after the call the dict at the address of the request is not the
  dict that was passed in; its \<^verbatim>\<open>exception\<close> entry is gone and it has a \<^verbatim>\<open>last_output\<close>.
\<close>

theorem exception_to_messages_mutates_inputs:
  "fst (exception_to_messages 0 example_heap_failed) = Inr 0 \<and>
   example_heap_failed 0 ''exception'' = Some (VExc example_failure) \<and>
   snd (exception_to_messages 0 example_heap_failed) 0 ''exception'' = None \<and>
   example_heap_failed 0 ''last_output'' = None \<and>
   snd (exception_to_messages 0 example_heap_failed) 0 ''last_output'' \<noteq> None \<and>
   snd (exception_to_messages 0 example_heap_failed) 0 \<noteq> example_heap_failed 0"
proof -
  have a: "example_heap_failed 0 ''exception'' = Some (VExc example_failure)"
    by (simp add: example_heap_failed_def)
  have b: "example_heap_failed 0 ''last_output'' = None"
    by (simp add: example_heap_failed_def example_inputs_def)
  have c: "exception_to_messages 0 example_heap_failed =
     (Inr 0, example_heap_failed(0 := (example_heap_failed 0)(''exception'' := None,
        ''last_output'' \<mapsto>
          VMsgs [AIMessage [] [call_missing], ToolMessage (PStr ''call_1'') ''dict_arg missing'',
                 HumanMessage ''The last tool call raised an exception. Try calling the tool again with corrected arguments. Do not repeat mistakes.''])))"
    by (simp add: exception_to_messages_def a messages_example Let_def)
  have d: "snd (exception_to_messages 0 example_heap_failed) 0 ''exception'' = None"
    by (simp add: c)
  have e: "snd (exception_to_messages 0 example_heap_failed) 0 ''last_output'' \<noteq> None"
    by (simp add: c)
  from b e have f: "snd (exception_to_messages 0 example_heap_failed) 0 \<noteq> example_heap_failed 0"
    by metis
  from a b c d e f show ?thesis by simp
qed

subsection \<open>Try/except tool call\<close>

text \<open>
  C8, as the code has it: the f-string is a function of the printed arguments and the
  error. When \<^verbatim>\<open>str()\<close> of the error returns, the result is the diagnostic text with the
  arguments, the class of the error and its \<^verbatim>\<open>str()\<close> in it. When \<^verbatim>\<open>str()\<close> of the error
  raises, that exception leaves the f-string: there is no generic message in its place.
\<close>

theorem translate_total_when_str_returns:
  "(exn_str e = Inr s \<longrightarrow>
      translate tool_args e =
        Inr (''Calling tool with arguments:'' @ [CHR 0x0A, CHR 0x0A] @ tool_args
             @ [CHR 0x0A, CHR 0x0A] @ ''raised the following error:'' @ [CHR 0x0A, CHR 0x0A]
             @ type_repr e @ '': '' @ s)) \<and>
   (exn_str e = Inl e' \<longrightarrow> translate tool_args e = Inl e')"
  by (simp add: translate_def)

text \<open>At the \<^verbatim>\<open>ValidationError\<close> of the scenario, and at an error whose \<^verbatim>\<open>__str__\<close> raises.\<close>

theorem translate_total_when_str_returns_witness:
  "translate ''{}'' (ValidationError ''dict_arg missing'') =
        Inr (''Calling tool with arguments:'' @ [CHR 0x0A, CHR 0x0A] @ ''{}''
             @ [CHR 0x0A, CHR 0x0A] @ ''raised the following error:'' @ [CHR 0x0A, CHR 0x0A]
             @ type_repr (ValidationError ''dict_arg missing'') @ '': '' @ ''dict_arg missing'') \<and>
   translate ''{}'' broken_error = Inl IndexError"
  using translate_total_when_str_returns
          [where e = "ValidationError ''dict_arg missing''" and s = "''dict_arg missing''"
             and tool_args = "''{}''"]
        translate_total_when_str_returns
          [where e = broken_error and e' = IndexError and tool_args = "''{}''"]
  by (simp add: ValidationError_def broken_error_def)

text \<open>
  Against C8 as stated: for an error whose \<^verbatim>\<open>__str__\<close> raises \<^verbatim>\<open>IndexError\<close> the translation
  raises that \<^verbatim>\<open>IndexError\<close> and returns no string.
\<close>

theorem translate_raises_on_broken_str:
  "translate ''{}'' broken_error = Inl IndexError"
  by (simp add: translate_def broken_error_def)

text \<open>
  C10: when the tool invocation succeeds, \<^verbatim>\<open>try_except_tool\<close> returns \<^verbatim>\<open>None\<close>: what the tool
  returned is dropped. Whenever it returns a value, the invocation has raised and the
  value is the diagnostic string for that exception.
\<close>

theorem try_except_tool_returns_none_on_success:
  "(complex_tool_invoke tool_args = Inr v \<longrightarrow> try_except_tool repr tool_args = Inr None) \<and>
   (try_except_tool repr tool_args = Inr (Some s) \<longrightarrow>
      (\<exists>e. complex_tool_invoke tool_args = Inl e \<and> translate (repr tool_args) e = Inr s))"
  by (auto simp: try_except_tool_def split: sum.splits)

text \<open>At the complete and at the incomplete arguments of the scenario.\<close>

theorem try_except_tool_returns_none_on_success_witness:
  "complex_tool_invoke example_args_complete = Inr (PFloat float_10_5) \<and>
   try_except_tool (\<lambda>v. ''{}'') example_args_complete = Inr None \<and>
   try_except_tool (\<lambda>v. ''{}'') example_args_missing
     = Inr (Some (''Calling tool with arguments:'' @ [CHR 0x0A, CHR 0x0A] @ ''{}''
               @ [CHR 0x0A, CHR 0x0A] @ ''raised the following error:'' @ [CHR 0x0A, CHR 0x0A]
               @ ''<class '' @ [CHR 0x27] @ ''pydantic_core._pydantic_core.ValidationError''
               @ [CHR 0x27] @ ''>'' @ '': '' @ ''dict_arg missing'')) \<and>
   (\<exists>e. complex_tool_invoke example_args_missing = Inl e)"
proof -
  have ok: "complex_tool_invoke example_args_complete = Inr (PFloat float_10_5)"
    by (rule invoke_complete)
  have none: "try_except_tool (\<lambda>v. ''{}'') example_args_complete = Inr None"
    using try_except_tool_returns_none_on_success
            [of example_args_complete "PFloat float_10_5" "\<lambda>v. ''{}''" "[]"] ok
    by blast
  have some: "try_except_tool (\<lambda>v. ''{}'') example_args_missing
     = Inr (Some (''Calling tool with arguments:'' @ [CHR 0x0A, CHR 0x0A] @ ''{}''
               @ [CHR 0x0A, CHR 0x0A] @ ''raised the following error:'' @ [CHR 0x0A, CHR 0x0A]
               @ ''<class '' @ [CHR 0x27] @ ''pydantic_core._pydantic_core.ValidationError''
               @ [CHR 0x27] @ ''>'' @ '': '' @ ''dict_arg missing''))"
    by (simp add: try_except_tool_def invoke_missing translate_def ValidationError_def)
  from some try_except_tool_returns_none_on_success
            [of example_args_missing PNone "\<lambda>v. ''{}''"]
  have "\<exists>e. complex_tool_invoke example_args_missing = Inl e" by blast
  with ok none some show ?thesis by blast
qed

end
